theory Spec2Isabelle
  imports Complex_Main
begin

section \<open>The Colormap object of silx.gui.plot.Colormap\<close>

text \<open>
  A shallow embedding of the class \<^verbatim>\<open>Colormap\<close> (src/silx/gui/plot/Colormap.py): its
  attributes as a record, each method as a function from the object to the updated
  object or to a returned value, every \<^verbatim>\<open>raise\<close> and failed \<^verbatim>\<open>assert\<close> as the
  left summand of a sum type. A call that raises yields the error alone: what it had
  written to the object or to the logger before raising is not kept.
\<close>

subsection \<open>Python values\<close>

text \<open>
  The setters and \<^verbatim>\<open>_setFromDict\<close> store whatever object they are handed, so the
  attributes hold dynamically typed values. The values covered are \<^verbatim>\<open>None\<close>, the
  booleans, numbers, strings and arrays. A number \<open>PNum\<close> is a real: Python's
  \<^verbatim>\<open>int\<close> and \<^verbatim>\<open>float\<close> compare by numeric value. \<open>PNaN\<close> is the float NaN, which
  \<^verbatim>\<open>==\<close> holds unequal to every value, itself included, and which is below no
  number. The rounding of floats and the infinities are outside this model. \<open>PArr\<close> is a
  numpy array given by its \<^verbatim>\<open>shape\<close> and its elements in row-major order, each a number
  or NaN; it also stands for the list or tuple of colour rows that \<^verbatim>\<open>numpy.array\<close>
  turns into such an array.
\<close>

datatype pyfloat = Float real | NaN

datatype ndarray = NDArray (shape: "nat list") (elems: "pyfloat list")

datatype pyval =
    PNone
  | PBool bool
  | PNum real
  | PNaN
  | PStr string
  | PArr ndarray

datatype error = ValueError | TypeError | AssertionError

text \<open>Sequencing of statements that may raise: the first error ends the call.\<close>

definition ebind :: "error + 'a \<Rightarrow> ('a \<Rightarrow> error + 'b) \<Rightarrow> error + 'b" where
  "ebind m f = (case m of Inl e \<Rightarrow> Inl e | Inr x \<Rightarrow> f x)"

text \<open>Equality and order of floats: NaN is equal to nothing and below nothing.\<close>

fun float_eq :: "pyfloat \<Rightarrow> pyfloat \<Rightarrow> bool" where
  "float_eq (Float a) (Float b) = (a = b)"
| "float_eq _ _ = False"

fun float_lt :: "pyfloat \<Rightarrow> real \<Rightarrow> bool" where
  "float_lt (Float a) c = (a < c)"
| "float_lt NaN c = False"

text \<open>
  The numeric value of a value that has one. \<^verbatim>\<open>bool\<close> is a subclass of \<^verbatim>\<open>int\<close>:
  \<^verbatim>\<open>True\<close> counts as 1 and \<^verbatim>\<open>False\<close> as 0.
\<close>

fun py_float :: "pyval \<Rightarrow> pyfloat option" where
  "py_float (PNum r) = Some (Float r)"
| "py_float (PBool b) = Some (Float (if b then 1 else 0))"
| "py_float PNaN = Some NaN"
| "py_float _ = None"

text \<open>
  The truth value of \<^verbatim>\<open>a == b\<close>. Numbers, booleans and NaN are compared as floats;
  otherwise two values are equal when they are the same kind of value with the same
  content. With an array operand numpy compares elementwise and the result is an array:
  an array of one element has the truth value of that element, an array of several
  elements has none (\<^verbatim>\<open>ValueError\<close>). The model gives the truth value when every
  array among the operands has exactly one element and reports \<^verbatim>\<open>ValueError\<close>
  otherwise; an array without elements, and an array of several elements against a
  string or \<^verbatim>\<open>None\<close>, on which the versions of numpy differ, are not told apart
  from that.
\<close>

fun py_eq :: "pyval \<Rightarrow> pyval \<Rightarrow> error + bool" where
  "py_eq (PArr a) (PArr b) =
     (case (elems a, elems b) of
        ([u], [v]) \<Rightarrow> Inr (float_eq u v)
      | _ \<Rightarrow> Inl ValueError)"
| "py_eq (PArr a) y =
     (case elems a of
        [u] \<Rightarrow> Inr (case py_float y of Some v \<Rightarrow> float_eq u v | None \<Rightarrow> False)
      | _ \<Rightarrow> Inl ValueError)"
| "py_eq x (PArr b) =
     (case elems b of
        [v] \<Rightarrow> Inr (case py_float x of Some u \<Rightarrow> float_eq u v | None \<Rightarrow> False)
      | _ \<Rightarrow> Inl ValueError)"
| "py_eq x y =
     Inr (case (py_float x, py_float y) of
            (Some u, Some v) \<Rightarrow> float_eq u v
          | _ \<Rightarrow> x = y)"

text \<open>
  The truth value of \<^verbatim>\<open>a < c\<close> for a numeric literal \<^verbatim>\<open>c\<close>, as Python 3 has it:
  \<^verbatim>\<open>None\<close> and strings are not ordered against numbers (\<^verbatim>\<open>TypeError\<close>), an array
  is compared elementwise and has a truth value when it has one element.
\<close>

fun py_lt :: "pyval \<Rightarrow> real \<Rightarrow> error + bool" where
  "py_lt (PArr a) c = (case elems a of [u] \<Rightarrow> Inr (float_lt u c) | _ \<Rightarrow> Inl ValueError)"
| "py_lt x c = (case py_float x of Some u \<Rightarrow> Inr (float_lt u c) | None \<Rightarrow> Inl TypeError)"

text \<open>\<^verbatim>\<open>x in seq\<close>: the elements are compared with \<^verbatim>\<open>==\<close> from the left.\<close>

fun py_in :: "pyval \<Rightarrow> pyval list \<Rightarrow> error + bool" where
  "py_in x [] = Inr False"
| "py_in x (y # ys) = ebind (py_eq x y) (\<lambda>b. if b then Inr True else py_in x ys)"

text \<open>
  \<^verbatim>\<open>numpy.array_equal(a1, a2)\<close>: both arguments are taken as arrays (a value that
  is no array becomes an array of shape \<^verbatim>\<open>()\<close>), arrays of different shapes are
  unequal, arrays of the same shape are equal when all their elements are, as floats:
  an array with a NaN is equal to no array.
\<close>

fun array_equal :: "pyval \<Rightarrow> pyval \<Rightarrow> bool" where
  "array_equal (PArr a) (PArr b) =
     (shape a = shape b \<and> list_all2 float_eq (elems a) (elems b))"
| "array_equal (PArr a) y =
     (shape a = [] \<and>
      (case py_float y of Some v \<Rightarrow> list_all2 float_eq (elems a) [v] | None \<Rightarrow> False))"
| "array_equal x (PArr b) =
     (shape b = [] \<and>
      (case py_float x of Some u \<Rightarrow> list_all2 float_eq [u] (elems b) | None \<Rightarrow> False))"
| "array_equal x y =
     (case (py_float x, py_float y) of
        (Some u, Some v) \<Rightarrow> float_eq u v
      | _ \<Rightarrow> x = y)"

text \<open>\<^verbatim>\<open>len(a)\<close> of an array is its first dimension; a value without length raises.\<close>

fun py_len :: "pyval \<Rightarrow> error + nat" where
  "py_len (PArr a) = (case shape a of [] \<Rightarrow> Inl TypeError | n # _ \<Rightarrow> Inr n)"
| "py_len (PStr s) = Inr (length s)"
| "py_len _ = Inl TypeError"

subsection \<open>Module constants\<close>

definition LINEAR :: string where
  "LINEAR = ''linear''"

definition LOGARITHM :: string where
  "LOGARITHM = ''log''"

definition NORMALIZATIONS :: "string list" where
  "NORMALIZATIONS = [LINEAR, LOGARITHM]"

definition DEFAULT_MIN_LIN :: real where
  "DEFAULT_MIN_LIN = 0"

definition DEFAULT_MAX_LIN :: real where
  "DEFAULT_MAX_LIN = 1"

definition DEFAULT_MIN_LOG :: real where
  "DEFAULT_MIN_LOG = 1"

definition DEFAULT_MAX_LOG :: real where
  "DEFAULT_MAX_LOG = 10"

subsection \<open>The statistics routine\<close>

text \<open>
  Modelled from the spec: the result of \<^verbatim>\<open>min_max\<close>, which is imported from
  \<^verbatim>\<open>silx.math.combo\<close> and is not among the source files. The spec (6) gives it the
  fields \<^verbatim>\<open>minimum\<close>, \<^verbatim>\<open>maximum\<close> and the optional \<^verbatim>\<open>min_positive\<close>.
\<close>

record min_max_result =
  minimum :: real
  maximum :: real
  min_positive :: "real option"

text \<open>
  Modelled from the spec: what the pass of \<^verbatim>\<open>min_max\<close> does with one sample. The
  array is given by its elements, whatever its shape.
\<close>

definition min_max_step :: "bool \<Rightarrow> real \<Rightarrow> min_max_result \<Rightarrow> min_max_result" where
  "min_max_step want_positive v r =
     \<lparr> minimum = min (minimum r) v,
       maximum = max (maximum r) v,
       min_positive =
         (if want_positive \<and> 0 < v
          then (case min_positive r of None \<Rightarrow> Some v | Some m \<Rightarrow> Some (min m v))
          else min_positive r) \<rparr>"

text \<open>
  Modelled from the spec: the function \<^verbatim>\<open>min_max(data, min_positive)\<close> of
  \<^verbatim>\<open>silx.math.combo\<close>. The spec (4.1, 6) has it compute, in one pass over the data,
  \<^verbatim>\<open>minimum\<close>, \<^verbatim>\<open>maximum\<close> and \<^verbatim>\<open>min_positive\<close>, the smallest strictly positive value,
  present only if it was requested and at least one positive sample exists. The spec
  does not say what the statistics of an empty array are; here an empty array is an
  error, and every statement below about data takes the data non-empty. Nor does it say
  anything of NaN among the samples: the samples are numbers.
\<close>

definition min_max :: "real list \<Rightarrow> bool \<Rightarrow> error + min_max_result" where
  "min_max data want_positive =
     (case data of
        [] \<Rightarrow> Inl ValueError
      | x # xs \<Rightarrow>
          Inr (fold (min_max_step want_positive) data
                 \<lparr> minimum = x, maximum = x, min_positive = None \<rparr>))"

text \<open>An optional statistic as the Python value the caller reads.\<close>

fun py_optional :: "real option \<Rightarrow> pyval" where
  "py_optional None = PNone"
| "py_optional (Some r) = PNum r"

text \<open>A float, or \<^verbatim>\<open>None\<close>, as a Python value.\<close>

fun float_val :: "pyfloat option \<Rightarrow> pyval" where
  "float_val None = PNone"
| "float_val (Some (Float r)) = PNum r"
| "float_val (Some NaN) = PNaN"

subsection \<open>The object\<close>

text \<open>
  The attributes \<^verbatim>\<open>_name\<close>, \<^verbatim>\<open>_colors\<close>, \<^verbatim>\<open>_normalization\<close>, \<^verbatim>\<open>_vmin\<close>,
  \<^verbatim>\<open>_vmax\<close>, and \<^verbatim>\<open>_autoscale\<close>, which exists only once \<^verbatim>\<open>_setFromDict\<close> has
  run. The two effects of the methods outside the object are kept with it:
  \<open>sigChanged\<close> counts the emissions of the signal, \<open>warnings\<close> lists the warnings sent
  to the module's logger, latest first.
\<close>

datatype warning = UnsupportedLogBounds | NormalizationNotGiven

record colormap =
  self_name :: pyval
  self_colors :: pyval
  self_normalization :: pyval
  self_vmin :: pyval
  self_vmax :: pyval
  self_autoscale :: "bool option"
  sigChanged :: nat
  warnings :: "warning list"

definition emit :: "colormap \<Rightarrow> colormap" where
  "emit self = self\<lparr> sigChanged := Suc (sigChanged self) \<rparr>"

text \<open>
  \<^verbatim>\<open>_setColors\<close>: anything but \<^verbatim>\<open>None\<close>, an array, a list or a tuple raises
  \<^verbatim>\<open>ValueError\<close>. The function returns the value the attribute is set to.
\<close>

fun setColors :: "pyval \<Rightarrow> error + pyval" where
  "setColors PNone = Inr PNone"
| "setColors (PArr a) = Inr (PArr a)"
| "setColors _ = Inl ValueError"

text \<open>
  The constructor tests \<^verbatim>\<open>normalization is LOGARITHM\<close>: the identity of two objects,
  not the equality of two strings. A string handed to it is therefore given with its
  characters and with what object it is. \<open>Constant s\<close> is the one object that the
  module's constant with the characters \<open>s\<close> is bound to; a string literal in the
  caller's code is that object too, since the interpreter shares the literals that are
  written like identifiers. \<open>Built s\<close> is another object with the same characters, made
  at run time, as \<^verbatim>\<open>''.join(['l', 'og'])\<close> is or a string read from a file.
\<close>

datatype str_object = Constant string | Built string

fun chars_of :: "str_object \<Rightarrow> string" where
  "chars_of (Constant s) = s"
| "chars_of (Built s) = s"

text \<open>\<^verbatim>\<open>normalization is LOGARITHM\<close>\<close>

definition is_LOGARITHM :: "str_object \<Rightarrow> bool" where
  "is_LOGARITHM normalization = (normalization = Constant LOGARITHM)"

text \<open>
  \<^verbatim>\<open>__init__\<close>. The parameters that the constructor converts have the type it
  converts them to: \<^verbatim>\<open>name\<close> is a string or \<^verbatim>\<open>None\<close>, \<^verbatim>\<open>normalization\<close> a string,
  \<^verbatim>\<open>vmin\<close> and \<^verbatim>\<open>vmax\<close> a float or \<^verbatim>\<open>None\<close>, so that \<^verbatim>\<open>str\<close> and \<^verbatim>\<open>float\<close>
  leave them as they are. An \<^verbatim>\<open>int\<close> bound, which \<^verbatim>\<open>float\<close> rounds or, beyond the
  range of floats, rejects with \<^verbatim>\<open>OverflowError\<close>, is not among the arguments.
  \<open>below_one\<close> is \<^verbatim>\<open>v is not None and v < 1.0\<close>.
\<close>

definition below_one :: "pyfloat option \<Rightarrow> bool" where
  "below_one v = (case v of None \<Rightarrow> False | Some x \<Rightarrow> float_lt x 1)"

definition init ::
  "string option \<Rightarrow> pyval \<Rightarrow> str_object \<Rightarrow> pyfloat option \<Rightarrow> pyfloat option
     \<Rightarrow> error + colormap" where
  "init name colors normalization vmin vmax =
     (if chars_of normalization \<notin> set NORMALIZATIONS then Inl AssertionError
      else
        let reset = (is_LOGARITHM normalization \<and> (below_one vmin \<or> below_one vmax));
            vmin = (if reset then None else vmin);
            vmax = (if reset then None else vmax)
        in ebind (setColors colors) (\<lambda>c.
             Inr \<lparr> self_name = (case name of None \<Rightarrow> PNone | Some n \<Rightarrow> PStr n),
                   self_colors = c,
                   self_normalization = PStr (chars_of normalization),
                   self_vmin = float_val vmin,
                   self_vmax = float_val vmax,
                   self_autoscale = None,
                   sigChanged = 0,
                   warnings = (if reset then [UnsupportedLogBounds] else []) \<rparr>))"

definition isAutoscale :: "colormap \<Rightarrow> bool" where
  "isAutoscale self = (self_vmin self = PNone \<or> self_vmax self = PNone)"

definition getName :: "colormap \<Rightarrow> pyval" where
  "getName self = self_name self"

definition setName :: "string \<Rightarrow> colormap \<Rightarrow> colormap" where
  "setName name self = emit (self\<lparr> self_name := PStr name, self_colors := PNone \<rparr>)"

text \<open>\<^verbatim>\<open>getColorMapLUT\<close>: the copy has the content of the original.\<close>

definition getColorMapLUT :: "colormap \<Rightarrow> bool \<Rightarrow> pyval" where
  "getColorMapLUT self copy = self_colors self"

definition setColorMapLUT :: "pyval \<Rightarrow> bool \<Rightarrow> colormap \<Rightarrow> error + colormap" where
  "setColorMapLUT colors keepName self =
     ebind (setColors colors) (\<lambda>c.
     ebind (py_len colors) (\<lambda>n.
       let self = self\<lparr> self_colors := (if n = 0 then PNone else c) \<rparr>;
           self = (if keepName = False then self\<lparr> self_name := PStr [] \<rparr> else self)
       in Inr (emit self)))"

definition getNormalization :: "colormap \<Rightarrow> pyval" where
  "getNormalization self = self_normalization self"

definition setNormalization :: "string \<Rightarrow> colormap \<Rightarrow> colormap" where
  "setNormalization nrm self = emit (self\<lparr> self_normalization := PStr nrm \<rparr>)"

definition getVMin :: "colormap \<Rightarrow> pyval" where
  "getVMin self = self_vmin self"

definition setVMin :: "pyval \<Rightarrow> colormap \<Rightarrow> colormap" where
  "setVMin vmin self = emit (self\<lparr> self_vmin := vmin \<rparr>)"

definition getVMax :: "colormap \<Rightarrow> pyval" where
  "getVMax self = self_vmax self"

definition setVMax :: "pyval \<Rightarrow> colormap \<Rightarrow> colormap" where
  "setVMax vmax self = emit (self\<lparr> self_vmax := vmax \<rparr>)"

definition setVMinVMax :: "pyval \<Rightarrow> pyval \<Rightarrow> colormap \<Rightarrow> colormap" where
  "setVMinVMax vmin vmax self = emit (self\<lparr> self_vmin := vmin, self_vmax := vmax \<rparr>)"

definition getDefaultMin :: "colormap \<Rightarrow> error + pyval" where
  "getDefaultMin self =
     ebind (py_eq (self_normalization self) (PStr LINEAR)) (\<lambda>lin.
       Inr (PNum (if lin then DEFAULT_MIN_LIN else DEFAULT_MIN_LOG)))"

definition getDefaultMax :: "colormap \<Rightarrow> error + pyval" where
  "getDefaultMax self =
     ebind (py_eq (self_normalization self) (PStr LINEAR)) (\<lambda>lin.
       Inr (PNum (if lin then DEFAULT_MAX_LIN else DEFAULT_MAX_LOG)))"

text \<open>
  \<^verbatim>\<open>getColorMapRange\<close> returns the tuple \<^verbatim>\<open>(vmin, vmax)\<close>. Its second component is
  either one value or, after the statement
  \<^verbatim>\<open>vmax = result.min_positive, result.maximum\<close>, a tuple of two values.
\<close>

datatype bound = Scalar pyval | Tuple pyval pyval

definition getColorMapRange :: "colormap \<Rightarrow> real list option \<Rightarrow> error + (pyval \<times> bound)" where
  "getColorMapRange self data =
     ebind (case data of
              None \<Rightarrow> Inr None
            | Some d \<Rightarrow> ebind (min_max d True) (\<lambda>r. Inr (Some r))) (\<lambda>result.
     ebind (if self_vmin self = PNone
            then (case result of
                    Some r \<Rightarrow> Inr (PNum (minimum r))
                  | None \<Rightarrow> getDefaultMin self)
            else Inr (self_vmin self)) (\<lambda>vmin.
     ebind (if self_vmax self = PNone
            then (case result of
                    Some r \<Rightarrow> Inr (PNum (maximum r))
                  | None \<Rightarrow> getDefaultMax self)
            else Inr (self_vmax self)) (\<lambda>vmax.
     case result of
       None \<Rightarrow> Inr (vmin, Scalar vmax)
     | Some r \<Rightarrow>
         ebind (py_eq (getNormalization self) (PStr LOGARITHM)) (\<lambda>is_log.
           if is_log then
             ebind (py_lt vmin 0) (\<lambda>negative_min.
               let vmin = (if negative_min then py_optional (min_positive r) else vmin)
               in ebind (py_lt vmax 0) (\<lambda>negative_max.
                    Inr (vmin,
                         if negative_max
                         then Tuple (py_optional (min_positive r)) (PNum (maximum r))
                         else Scalar vmax)))
           else Inr (vmin, Scalar vmax)))))"

subsection \<open>The dictionary form\<close>

type_synonym dict = "string \<rightharpoonup> pyval"

text \<open>\<^verbatim>\<open>dic[k] if k in dic else None\<close>\<close>

definition dict_get :: "dict \<Rightarrow> string \<Rightarrow> pyval" where
  "dict_get dic k = (case dic k of Some v \<Rightarrow> v | None \<Rightarrow> PNone)"

definition toDict :: "colormap \<Rightarrow> dict" where
  "toDict self =
     [ ''name'' \<mapsto> self_name self,
       ''colors'' \<mapsto> self_colors self,
       ''vmin'' \<mapsto> self_vmin self,
       ''vmax'' \<mapsto> self_vmax self,
       ''autoscale'' \<mapsto> PBool (isAutoscale self),
       ''normalization'' \<mapsto> self_normalization self ]"

text \<open>
  The check of the \<^verbatim>\<open>autoscale\<close> entry in \<^verbatim>\<open>_setFromDict\<close>; \<^verbatim>\<open>is True\<close> and
  \<^verbatim>\<open>is False\<close> hold of the two booleans only.
\<close>

definition check_autoscale :: "dict \<Rightarrow> pyval \<Rightarrow> pyval \<Rightarrow> error + unit" where
  "check_autoscale dic vmin vmax =
     (case dic ''autoscale'' of
        None \<Rightarrow> Inr ()
      | Some a \<Rightarrow>
          if a = PBool True then
            (if vmin \<noteq> PNone \<or> vmax \<noteq> PNone then Inl ValueError else Inr ())
          else if a = PBool False then
            (if vmin = PNone \<and> vmax = PNone then Inl ValueError else Inr ())
          else Inl ValueError)"

definition setFromDict :: "dict \<Rightarrow> colormap \<Rightarrow> error + colormap" where
  "setFromDict dic self =
     (let name = dict_get dic ''name'';
          colors = dict_get dic ''colors'';
          vmin = dict_get dic ''vmin'';
          vmax = dict_get dic ''vmax'';
          given = (dic ''normalization'' \<noteq> None);
          normalization = (if given then dict_get dic ''normalization'' else PStr LINEAR);
          self = (if given then self
                  else self\<lparr> warnings := NormalizationNotGiven # warnings self \<rparr>)
      in if name = PNone \<and> colors = PNone then Inl ValueError
         else
           ebind (py_in normalization (map PStr NORMALIZATIONS)) (\<lambda>known.
             if \<not> known then Inl ValueError
             else
               ebind (check_autoscale dic vmin vmax) (\<lambda>_.
                 Inr (emit (self\<lparr> self_name := name,
                                   self_colors := colors,
                                   self_vmin := vmin,
                                   self_vmax := vmax,
                                   self_autoscale := Some (vmin = PNone \<and> vmax = PNone),
                                   self_normalization := normalization \<rparr>)))))"

definition fromDict :: "dict \<Rightarrow> error + colormap" where
  "fromDict dic =
     ebind (init (Some []) PNone (Constant LINEAR) None None)
       (\<lambda>colormap. setFromDict dic colormap)"

subsection \<open>Equality\<close>

text \<open>
  \<^verbatim>\<open>__eq__\<close>: a chain of \<^verbatim>\<open>and\<close>, which stops at the first comparison that is
  false.
\<close>

definition eq :: "colormap \<Rightarrow> colormap \<Rightarrow> error + bool" where
  "eq self other =
     ebind (py_eq (getName self) (getName other)) (\<lambda>b1.
       if \<not> b1 then Inr False else
     ebind (py_eq (getNormalization self) (getNormalization other)) (\<lambda>b2.
       if \<not> b2 then Inr False else
     ebind (py_eq (getVMin self) (getVMin other)) (\<lambda>b3.
       if \<not> b3 then Inr False else
     ebind (py_eq (getVMax self) (getVMax other)) (\<lambda>b4.
       if \<not> b4 then Inr False else
     Inr (array_equal (getColorMapLUT self True) (getColorMapLUT other True))))))"

subsection \<open>The documented types, and an object to compute with\<close>

text \<open>
  The class documents \<^verbatim>\<open>name\<close> as a string, \<^verbatim>\<open>colors\<close> as an array,
  \<^verbatim>\<open>norm\<close> as a string, \<^verbatim>\<open>vmin\<close> and \<^verbatim>\<open>vmax\<close> as a float or \<^verbatim>\<open>None\<close>;
  the constructor also lets \<^verbatim>\<open>name\<close> and \<^verbatim>\<open>colors\<close> be \<^verbatim>\<open>None\<close>.
\<close>

fun str_or_None :: "pyval \<Rightarrow> bool" where
  "str_or_None PNone = True"
| "str_or_None (PStr s) = True"
| "str_or_None _ = False"

fun float_or_None :: "pyval \<Rightarrow> bool" where
  "float_or_None PNone = True"
| "float_or_None (PNum r) = True"
| "float_or_None PNaN = True"
| "float_or_None _ = False"

fun array_or_None :: "pyval \<Rightarrow> bool" where
  "array_or_None PNone = True"
| "array_or_None (PArr a) = True"
| "array_or_None _ = False"

fun is_str :: "pyval \<Rightarrow> bool" where
  "is_str (PStr s) = True"
| "is_str _ = False"

definition documented_types :: "colormap \<Rightarrow> bool" where
  "documented_types self =
     (str_or_None (self_name self) \<and> array_or_None (self_colors self) \<and>
      is_str (self_normalization self) \<and>
      float_or_None (self_vmin self) \<and> float_or_None (self_vmax self))"

text \<open>Neither bound is NaN and no entry of the colour table is.\<close>

fun no_nan :: "pyval \<Rightarrow> bool" where
  "no_nan PNaN = False"
| "no_nan (PArr a) = (NaN \<notin> set (elems a))"
| "no_nan _ = True"

definition nan_free :: "colormap \<Rightarrow> bool" where
  "nan_free self =
     (no_nan (self_vmin self) \<and> no_nan (self_vmax self) \<and> no_nan (self_colors self))"

text \<open>The normalization is one of the two that \<^verbatim>\<open>NORMALIZATIONS\<close> lists.\<close>

definition normalization_known :: "colormap \<Rightarrow> bool" where
  "normalization_known self = (self_normalization self \<in> set (map PStr NORMALIZATIONS))"

text \<open>
  The object that \<^verbatim>\<open>Colormap(normalization=nrm)\<close> constructs, and the object that
  \<^verbatim>\<open>Colormap(vmin=float('nan'))\<close> constructs.
\<close>

definition gray :: "string \<Rightarrow> colormap" where
  "gray nrm =
     \<lparr> self_name = PStr ''gray'',
       self_colors = PNone,
       self_normalization = PStr nrm,
       self_vmin = PNone,
       self_vmax = PNone,
       self_autoscale = None,
       sigChanged = 0,
       warnings = [] \<rparr>"

definition gray_nan :: colormap where
  "gray_nan = (gray LINEAR)\<lparr> self_vmin := PNaN \<rparr>"

section \<open>Properties\<close>

subsection \<open>Sequencing and the statistics\<close>

lemma ebind_Inl [simp]: "ebind (Inl e) f = Inl e"
  by (simp add: ebind_def)

lemma ebind_Inr [simp]: "ebind (Inr x) f = f x"
  by (simp add: ebind_def)

lemma fold_step_minimum:
  "minimum (fold (min_max_step w) xs r) = fold min xs (minimum r)"
  by (induction xs arbitrary: r) (simp_all add: min_max_step_def min.commute)

lemma fold_step_maximum:
  "maximum (fold (min_max_step w) xs r) = fold max xs (maximum r)"
  by (induction xs arbitrary: r) (simp_all add: min_max_step_def max.commute)

lemma Min_insert_min:
  fixes a b :: real
  assumes "finite A"
  shows "Min (insert (min a b) A) = Min (insert a (insert b A))"
proof (cases "A = {}")
  case True
  then show ?thesis by simp
next
  case False
  with assms show ?thesis by (simp add: min.assoc)
qed

lemma fold_step_min_positive:
  "min_positive (fold (min_max_step True) xs r) =
     (let P = {v \<in> set xs. 0 < v} \<union> set_option (min_positive r)
      in if P = {} then None else Some (Min P))"
proof (induction xs arbitrary: r)
  case Nil
  show ?case by (cases "min_positive r") simp_all
next
  case (Cons x xs)
  let ?r' = "min_max_step True x r"
  let ?A = "{v \<in> set xs. 0 < v}"
  have fin: "finite ?A" by simp
  show ?case
  proof (cases "0 < x")
    case False
    then have "min_positive ?r' = min_positive r" "{v \<in> set (x # xs). 0 < v} = ?A"
      by (auto simp: min_max_step_def)
    then show ?thesis using Cons.IH [of ?r'] by simp
  next
    case True
    then have pos: "{v \<in> set (x # xs). 0 < v} = insert x ?A" by auto
    show ?thesis
    proof (cases "min_positive r")
      case None
      then have a: "min_positive ?r' = Some x" using True by (simp add: min_max_step_def)
      show ?thesis using Cons.IH [of ?r'] a None pos by (simp add: Let_def)
    next
      case (Some m)
      then have a: "min_positive ?r' = Some (min m x)"
        using True by (simp add: min_max_step_def)
      have "Min (insert (min m x) ?A) = Min (insert m (insert x ?A))"
        using fin by (rule Min_insert_min)
      then show ?thesis
        using Cons.IH [of ?r'] a Some pos by (simp add: Let_def insert_commute)
    qed
  qed
qed

text \<open>
  On non-empty data \<open>min_max\<close> returns, and its three statistics are the least
  element, the greatest element and the least strictly positive element, if any.
\<close>

lemma min_max_returns:
  assumes "data \<noteq> []"
  shows "\<exists>r. min_max data w = Inr r \<and>
             minimum r = Min (set data) \<and> maximum r = Max (set data)"
  using assms
  by (cases data)
     (simp_all add: min_max_def fold_step_minimum fold_step_maximum min_max_step_def
        flip: Min.set_eq_fold Max.set_eq_fold)

lemma min_max_min_positive:
  assumes "min_max data True = Inr r"
  shows "min_positive r =
           (if \<exists>v \<in> set data. 0 < v then Some (Min {v \<in> set data. 0 < v}) else None)"
proof (cases data)
  case Nil
  with assms show ?thesis by (simp add: min_max_def)
next
  case (Cons x xs)
  let ?r0 = "\<lparr> minimum = x, maximum = x, min_positive = None \<rparr>"
  from assms Cons have "r = fold (min_max_step True) data ?r0"
    by (simp add: min_max_def)
  then have "min_positive r =
      (let P = {v \<in> set data. 0 < v} \<union> set_option (min_positive ?r0)
       in if P = {} then None else Some (Min P))"
    by (simp only: fold_step_min_positive)
  then show ?thesis by (auto simp: Let_def)
qed

lemma init_gray:
  "nrm \<in> set NORMALIZATIONS \<Longrightarrow>
   init (Some ''gray'') PNone (Constant nrm) None None = Inr (gray nrm)"
  by (simp add: init_def gray_def below_one_def)

lemma init_gray_nan:
  "init (Some ''gray'') PNone (Constant LINEAR) (Some NaN) None = Inr gray_nan"
  by (simp add: init_def gray_nan_def gray_def below_one_def is_LOGARITHM_def
        NORMALIZATIONS_def LINEAR_def LOGARITHM_def)

subsection \<open>The constructor under logarithmic normalization\<close>

text \<open>
  When the normalization is the object \<^verbatim>\<open>LOGARITHM\<close> itself and a bound is below 1.0,
  the constructor resets both bounds and logs the warning.
\<close>

lemma init_constant_log_below_one:
  assumes "below_one vmin \<or> below_one vmax"
    and "array_or_None colors"
  shows "\<exists>c. init name colors (Constant LOGARITHM) vmin vmax = Inr c
            \<and> self_vmin c = PNone \<and> self_vmax c = PNone
            \<and> warnings c = [UnsupportedLogBounds]"
proof -
  from assms(2) obtain c where "setColors colors = Inr c"
    by (cases colors) simp_all
  with assms(1) show ?thesis
    by (auto simp: init_def is_LOGARITHM_def NORMALIZATIONS_def Let_def)
qed

text \<open>Under any other normalization object the bounds are stored as they are given.\<close>

lemma init_not_constant_log:
  assumes "normalization \<noteq> Constant LOGARITHM"
    and "init name colors normalization vmin vmax = Inr c"
  shows "self_vmin c = float_val vmin \<and> self_vmax c = float_val vmax \<and> warnings c = []"
  using assms
  by (auto simp: init_def is_LOGARITHM_def Let_def ebind_def split: if_splits sum.splits)

subsection \<open>Comparisons on values of the documented types\<close>

lemma py_eq_str_or_None:
  "str_or_None x \<Longrightarrow> str_or_None y \<Longrightarrow> py_eq x y = Inr (x = y)"
  by (cases x; cases y) auto

lemma py_eq_float_or_None:
  "float_or_None x \<Longrightarrow> float_or_None y \<Longrightarrow> py_eq x y = Inr (x = y \<and> no_nan x)"
  by (cases x; cases y) auto

lemma float_eq_iff: "float_eq u v \<longleftrightarrow> u = v \<and> u \<noteq> NaN"
  by (cases u; cases v) auto

lemma list_all2_float_eq: "list_all2 float_eq xs ys \<longleftrightarrow> xs = ys \<and> NaN \<notin> set xs"
  by (induction xs arbitrary: ys) (auto simp: list_all2_Cons1 float_eq_iff)

lemma py_eq_is_str:
  "is_str x \<Longrightarrow> is_str y \<Longrightarrow> py_eq x y = Inr (x = y)"
  by (cases x; cases y) auto

lemma array_equal_array_or_None:
  "array_or_None x \<Longrightarrow> array_or_None y \<Longrightarrow> array_equal x y = (x = y \<and> no_nan x)"
  by (cases x; cases y) (auto simp: ndarray.expand list_all2_float_eq)

subsection \<open>What \<open>setFromDict\<close> rejects\<close>

lemma py_in_NORMALIZATIONS:
  "py_in v (map PStr NORMALIZATIONS) = Inl ValueError
   \<or> py_in v (map PStr NORMALIZATIONS) = Inr (v = PStr LINEAR \<or> v = PStr LOGARITHM)"
  by (cases v) (auto simp: NORMALIZATIONS_def split: list.splits)

lemma check_autoscale_Inl: "check_autoscale dic vmin vmax = Inl e \<Longrightarrow> e = ValueError"
  by (auto simp: check_autoscale_def split: option.splits if_splits)

text \<open>Every error of \<open>setFromDict\<close> is a \<^verbatim>\<open>ValueError\<close>.\<close>

lemma setFromDict_Inl: "setFromDict dic self = Inl e \<Longrightarrow> e = ValueError"
  using py_in_NORMALIZATIONS [of "if dic ''normalization'' \<noteq> None
     then dict_get dic ''normalization'' else PStr LINEAR"]
  by (auto simp: setFromDict_def Let_def ebind_def
        split: if_splits sum.splits dest: check_autoscale_Inl)

lemma setFromDict_check:
  assumes "check_autoscale dic (dict_get dic ''vmin'') (dict_get dic ''vmax'') = Inl ValueError
           \<or> (dict_get dic ''name'' = PNone \<and> dict_get dic ''colors'' = PNone)"
  shows "setFromDict dic self = Inl ValueError"
proof (cases "setFromDict dic self")
  case (Inl e)
  then show ?thesis by (simp add: setFromDict_Inl)
next
  case (Inr c)
  with assms show ?thesis
    by (auto simp: setFromDict_def Let_def ebind_def split: if_splits sum.splits)
qed

text \<open>\<open>fromDict\<close> runs \<open>setFromDict\<close> on the object \<^verbatim>\<open>Colormap(name="")\<close>.\<close>

lemma fromDict_setFromDict:
  "fromDict dic = setFromDict dic (gray LINEAR\<lparr> self_name := PStr [] \<rparr>)"
  by (simp add: fromDict_def init_def gray_def NORMALIZATIONS_def LINEAR_def LOGARITHM_def
        below_one_def is_LOGARITHM_def)

subsection \<open>Where the normalization is checked\<close>

text \<open>
  The constructor asserts that the normalization is a known one and \<open>setFromDict\<close>
  raises on any other; the setters of the other attributes leave it alone.
\<close>

lemma init_normalization_known:
  "init name colors normalization vmin vmax = Inr c \<Longrightarrow> normalization_known c"
  by (auto simp: init_def normalization_known_def Let_def ebind_def
        split: if_splits sum.splits)

lemma setFromDict_normalization_known:
  assumes "setFromDict dic self = Inr c"
  shows "normalization_known c"
proof -
  let ?n = "if dic ''normalization'' \<noteq> None then dict_get dic ''normalization'' else PStr LINEAR"
  from assms have "py_in ?n (map PStr NORMALIZATIONS) = Inr True" "self_normalization c = ?n"
    by (auto simp: setFromDict_def Let_def ebind_def emit_def split: if_splits sum.splits)
  with py_in_NORMALIZATIONS [of ?n] show ?thesis
    by (auto simp: normalization_known_def NORMALIZATIONS_def)
qed

lemma setters_normalization_known:
  assumes "normalization_known self"
  shows "normalization_known (setName name self)"
    and "normalization_known (setVMin vmin self)"
    and "normalization_known (setVMax vmax self)"
    and "normalization_known (setVMinVMax vmin vmax self)"
    and "setColorMapLUT colors keepName self = Inr c \<Longrightarrow> normalization_known c"
  using assms
  by (auto simp: normalization_known_def setName_def setVMin_def setVMax_def setVMinVMax_def
        setColorMapLUT_def emit_def Let_def ebind_def split: if_splits sum.splits)

subsection \<open>The range under logarithmic normalization\<close>

text \<open>
  The example of the spec: for the data \<^verbatim>\<open>[-3, -1, 0, 2, 4]\<close> the lower bound is
  corrected to the least positive sample.
\<close>

lemma getColorMapRange_log_example:
  "getColorMapRange (gray LOGARITHM) (Some [- 3, - 1, 0, 2, 4]) = Inr (PNum 2, Scalar (PNum 4))"
  by (simp add: getColorMapRange_def gray_def min_max_def min_max_step_def
        getNormalization_def LOGARITHM_def)

text \<open>
  Whenever the resolved upper bound is negative, the upper bound returned is the tuple
  of \<^verbatim>\<open>min_positive\<close> and \<^verbatim>\<open>maximum\<close>.
\<close>

lemma getColorMapRange_log_negative_vmax:
  assumes "self_normalization self = PStr LOGARITHM"
    and "min_max data True = Inr r"
    and "float_or_None (self_vmin self)"
    and "(self_vmax self = PNone \<and> maximum r < 0) \<or> (\<exists>b. self_vmax self = PNum b \<and> b < 0)"
  shows "\<exists>vmin. getColorMapRange self (Some data)
           = Inr (vmin, Tuple (py_optional (min_positive r)) (PNum (maximum r)))"
  using assms
  by (cases "self_vmin self") (auto simp: getColorMapRange_def getNormalization_def)

section \<open>The claims\<close>

text \<open>
  Claim C1. Under LOGARITHM normalization with data supplied, a negative resolved vmax
  is to be replaced with the single scalar \<^verbatim>\<open>min_positive\<close>, as a negative vmin is, so
  that the returned vmax is one float and never a two-element value.

  The source does otherwise: on the object made by \<^verbatim>\<open>Colormap(normalization='log')\<close>
  followed by \<^verbatim>\<open>setVMax(-1.0)\<close>, with the data \<^verbatim>\<open>[1, 2, 3]\<close>, the lower bound is the
  least sample 1 and the upper bound returned is the tuple \<^verbatim>\<open>(1, 3)\<close> of
  \<^verbatim>\<open>min_positive\<close> and \<^verbatim>\<open>maximum\<close>, where the claim has the scalar 1.
\<close>

theorem getColorMapRange_negative_vmax_tuple:
  "getColorMapRange (setVMax (PNum (- 1)) (gray LOGARITHM)) (Some [1, 2, 3])
     = Inr (PNum 1, Tuple (PNum 1) (PNum 3))"
  by (simp add: getColorMapRange_def setVMax_def emit_def gray_def min_max_def
        min_max_step_def getNormalization_def LOGARITHM_def)

text \<open>
  Claim C2. For data without a strictly positive value, the range under LOGARITHM
  normalization with a negative resolved bound is to raise \<^verbatim>\<open>NoPositiveDataError\<close>
  and not to return a negative or undefined bound.

  The source raises nothing there. For the data \<^verbatim>\<open>[-5, -2, -1]\<close> and no explicit
  bounds the call returns, with \<^verbatim>\<open>None\<close> as lower bound.
\<close>

theorem getColorMapRange_no_positive_counterexample:
  "\<not> isl (getColorMapRange (gray LOGARITHM) (Some [- 5, - 2, - 1]))
   \<and> getColorMapRange (gray LOGARITHM) (Some [- 5, - 2, - 1])
       = Inr (PNone, Tuple PNone (PNum (- 1)))"
  by (simp add: getColorMapRange_def gray_def min_max_def
        min_max_step_def getNormalization_def LOGARITHM_def)

text \<open>
  Claim C2, as the source has it. For non-empty data without a strictly positive value
  and LOGARITHM normalization, when the resolved vmin is negative (the least sample if
  vmin is unset, else the explicit vmin) and vmax is a float or unset, the call raises
  no error: it returns, and the lower bound it returns is the undefined
  \<^verbatim>\<open>min_positive\<close>, that is \<^verbatim>\<open>None\<close>.
\<close>

theorem getColorMapRange_no_positive:
  assumes "self_normalization self = PStr LOGARITHM"
    and "data \<noteq> []"
    and "\<forall>v \<in> set data. v \<le> 0"
    and "(self_vmin self = PNone \<and> Min (set data) < 0)
         \<or> (\<exists>a. self_vmin self = PNum a \<and> a < 0)"
    and "float_or_None (self_vmax self)"
  shows "\<exists>vmax. getColorMapRange self (Some data) = Inr (PNone, vmax)"
proof -
  from min_max_returns [OF assms(2)] obtain r where
    r: "min_max data True = Inr r" "minimum r = Min (set data)" by blast
  from assms(3) have "\<not> (\<exists>v \<in> set data. 0 < v)" by (auto simp: not_less)
  with min_max_min_positive [OF r(1)] have np: "min_positive r = None" by simp
  from assms(5) show ?thesis
    using assms(1,4) r np
    by (cases "self_vmax self")
       (auto simp: getColorMapRange_def getNormalization_def)
qed

theorem getColorMapRange_no_positive_witness:
  "\<exists>vmax. getColorMapRange (gray LOGARITHM) (Some [- 5, - 2, - 1]) = Inr (PNone, vmax)"
  using getColorMapRange_no_positive [of "gray LOGARITHM" "[- 5, - 2, - 1]"]
  by (simp add: gray_def)

text \<open>
  Claim C3. The normalization is to be LINEAR or LOGARITHM in every reachable state:
  established at construction and kept by every operation, \<^verbatim>\<open>setNormalization\<close> with
  an arbitrary string included.

  The constructor and \<^verbatim>\<open>_setFromDict\<close> check the normalization
  (\<open>init_normalization_known\<close>, \<open>setFromDict_normalization_known\<close>);
  \<^verbatim>\<open>setNormalization\<close> stores its argument unchecked. After
  \<^verbatim>\<open>Colormap().setNormalization('foo')\<close> the normalization is \<^verbatim>\<open>'foo'\<close>, which is
  neither.
\<close>

theorem setNormalization_unchecked:
  "getNormalization (setNormalization ''foo'' (gray LINEAR)) = PStr ''foo''
   \<and> ''foo'' \<notin> set NORMALIZATIONS
   \<and> normalization_known (gray LINEAR)
   \<and> \<not> normalization_known (setNormalization ''foo'' (gray LINEAR))"
  by (simp add: getNormalization_def setNormalization_def emit_def gray_def
        normalization_known_def NORMALIZATIONS_def LINEAR_def LOGARITHM_def)

text \<open>
  Claim C4. For an object whose vmin and vmax are both unset: without data the range is
  exactly (0, 1) under LINEAR and (1, 10) under LOGARITHM; with data and LINEAR
  normalization it is the minimum and the maximum of the data, from the one call of the
  statistics routine.
\<close>

theorem getColorMapRange_autoscale:
  assumes "self_vmin self = PNone" and "self_vmax self = PNone"
  shows "(self_normalization self = PStr LINEAR \<longrightarrow>
            getColorMapRange self None = Inr (PNum 0, Scalar (PNum 1)))
       \<and> (self_normalization self = PStr LOGARITHM \<longrightarrow>
            getColorMapRange self None = Inr (PNum 1, Scalar (PNum 10)))
       \<and> (self_normalization self = PStr LINEAR \<and> data \<noteq> [] \<longrightarrow>
            getColorMapRange self (Some data)
              = Inr (PNum (Min (set data)), Scalar (PNum (Max (set data)))))"
proof (intro conjI impI)
  assume "self_normalization self = PStr LINEAR"
  with assms show "getColorMapRange self None = Inr (PNum 0, Scalar (PNum 1))"
    by (simp add: getColorMapRange_def getDefaultMin_def getDefaultMax_def
          DEFAULT_MIN_LIN_def DEFAULT_MAX_LIN_def)
next
  assume "self_normalization self = PStr LOGARITHM"
  with assms show "getColorMapRange self None = Inr (PNum 1, Scalar (PNum 10))"
    by (simp add: getColorMapRange_def getDefaultMin_def getDefaultMax_def
          DEFAULT_MIN_LOG_def DEFAULT_MAX_LOG_def LINEAR_def LOGARITHM_def)
next
  assume a: "self_normalization self = PStr LINEAR \<and> data \<noteq> []"
  then obtain r where "min_max data True = Inr r"
      "minimum r = Min (set data)" "maximum r = Max (set data)"
    using min_max_returns [of data True] by blast
  with a assms show "getColorMapRange self (Some data)
      = Inr (PNum (Min (set data)), Scalar (PNum (Max (set data))))"
    by (simp add: getColorMapRange_def getNormalization_def LINEAR_def LOGARITHM_def)
qed

theorem getColorMapRange_autoscale_witness:
  "getColorMapRange (gray LINEAR) None = Inr (PNum 0, Scalar (PNum 1))
   \<and> getColorMapRange (gray LOGARITHM) None = Inr (PNum 1, Scalar (PNum 10))
   \<and> getColorMapRange (gray LINEAR) (Some [1, 2, 3, 4, 5]) = Inr (PNum 1, Scalar (PNum 5))"
  using getColorMapRange_autoscale [of "gray LINEAR" "[1, 2, 3, 4, 5]"]
    getColorMapRange_autoscale [of "gray LOGARITHM" "[]"]
  by (simp add: gray_def)

text \<open>
  Claim C5. Constructing an object with LOGARITHM normalization and a supplied bound
  strictly below 1.0 is to reset both vmin and vmax to unset (autoscale) with a logged
  warning, without raising.

  The constructor does so when the normalization is the object \<^verbatim>\<open>LOGARITHM\<close> itself
  (\<open>init_constant_log_below_one\<close>). It tests \<^verbatim>\<open>normalization is LOGARITHM\<close>, where the
  assertion one line above and the other methods compare with \<^verbatim>\<open>in\<close> and \<^verbatim>\<open>==\<close>.
  So for a string with the characters \<^verbatim>\<open>log\<close> that is another object, as in
  \<^verbatim>\<open>Colormap(normalization=''.join(['l', 'og']), vmin=0.5)\<close>, the assertion passes,
  the normalization stored is \<^verbatim>\<open>'log'\<close>, the bound 0.5 is kept and nothing is logged.
\<close>

theorem init_built_log_keeps_bounds:
  "chars_of (Built ''log'') = LOGARITHM
   \<and> init (Some ''gray'') PNone (Built ''log'') (Some (Float (1 / 2))) None
       = Inr \<lparr> self_name = PStr ''gray'',
               self_colors = PNone,
               self_normalization = PStr LOGARITHM,
               self_vmin = PNum (1 / 2),
               self_vmax = PNone,
               self_autoscale = None,
               sigChanged = 0,
               warnings = [] \<rparr>"
  by (simp add: init_def is_LOGARITHM_def below_one_def NORMALIZATIONS_def LINEAR_def
        LOGARITHM_def)

text \<open>
  Claim C6. After \<^verbatim>\<open>setVMinVMax(vmin, vmax)\<close>, \<^verbatim>\<open>getVMin()\<close> and \<^verbatim>\<open>getVMax()\<close> return
  exactly the pair that was set. This holds of every pair of values, so of every pair of
  floats with vmin \<open>\<le>\<close> vmax.
\<close>

theorem setVMinVMax_roundtrip:
  "getVMin (setVMinVMax vmin vmax self) = vmin
   \<and> getVMax (setVMinVMax vmin vmax self) = vmax"
  by (simp add: getVMin_def getVMax_def setVMinVMax_def emit_def)

text \<open>
  Claim C7. Reading an object from a dictionary checks the \<^verbatim>\<open>autoscale\<close> entry when it
  is present: \<^verbatim>\<open>True\<close> with a vmin or vmax that is not \<^verbatim>\<open>None\<close> fails, \<^verbatim>\<open>False\<close> with
  vmin and vmax both \<^verbatim>\<open>None\<close> fails, any value other than \<^verbatim>\<open>True\<close> and \<^verbatim>\<open>False\<close>
  fails, and a dictionary whose name and colors are both \<^verbatim>\<open>None\<close> fails. The error is
  the \<^verbatim>\<open>ValueError\<close> that the source raises for an invalid dictionary, from
  \<^verbatim>\<open>_setFromDict\<close> on any object and from \<^verbatim>\<open>_fromDict\<close>.
\<close>

theorem setFromDict_invalid:
  assumes "(dic ''autoscale'' = Some (PBool True)
              \<and> (dict_get dic ''vmin'' \<noteq> PNone \<or> dict_get dic ''vmax'' \<noteq> PNone))
         \<or> (dic ''autoscale'' = Some (PBool False)
              \<and> dict_get dic ''vmin'' = PNone \<and> dict_get dic ''vmax'' = PNone)
         \<or> (\<exists>a. dic ''autoscale'' = Some a \<and> a \<noteq> PBool True \<and> a \<noteq> PBool False)
         \<or> (dict_get dic ''name'' = PNone \<and> dict_get dic ''colors'' = PNone)"
  shows "setFromDict dic self = Inl ValueError \<and> fromDict dic = Inl ValueError"
proof -
  from assms
  have "check_autoscale dic (dict_get dic ''vmin'') (dict_get dic ''vmax'') = Inl ValueError
        \<or> (dict_get dic ''name'' = PNone \<and> dict_get dic ''colors'' = PNone)"
    by (auto simp: check_autoscale_def)
  then show ?thesis
    by (simp add: setFromDict_check fromDict_setFromDict)
qed

theorem setFromDict_invalid_witness:
  "fromDict [''autoscale'' \<mapsto> PBool True, ''vmin'' \<mapsto> PNum 3, ''name'' \<mapsto> PStr ''gray'']
     = Inl ValueError
   \<and> fromDict [''autoscale'' \<mapsto> PBool False, ''name'' \<mapsto> PStr ''gray''] = Inl ValueError
   \<and> fromDict [''autoscale'' \<mapsto> PNum 1, ''name'' \<mapsto> PStr ''gray''] = Inl ValueError
   \<and> fromDict [''colors'' \<mapsto> PNone, ''name'' \<mapsto> PNone] = Inl ValueError"
  using
    setFromDict_invalid
      [of "[''autoscale'' \<mapsto> PBool True, ''vmin'' \<mapsto> PNum 3, ''name'' \<mapsto> PStr ''gray'']"]
    setFromDict_invalid [of "[''autoscale'' \<mapsto> PBool False, ''name'' \<mapsto> PStr ''gray'']"]
    setFromDict_invalid [of "[''autoscale'' \<mapsto> PNum 1, ''name'' \<mapsto> PStr ''gray'']"]
    setFromDict_invalid [of "[''colors'' \<mapsto> PNone, ''name'' \<mapsto> PNone]"]
  by (simp add: dict_get_def)

text \<open>
  Claim C8. Equality of two objects is to be structural and symmetric in the five
  attributes name, normalization, vmin, vmax and colors: two objects with the same five
  compare equal whatever their identity, and a change of any one of the five makes them
  unequal.

  The bounds are compared with \<^verbatim>\<open>==\<close> and the colour tables with
  \<^verbatim>\<open>numpy.array_equal\<close>, for both of which NaN is unequal to itself. The object that
  \<^verbatim>\<open>Colormap(vmin=float('nan'))\<close> constructs is not equal to itself.
\<close>

theorem eq_nan_counterexample:
  "init (Some ''gray'') PNone (Constant LINEAR) (Some NaN) None = Inr gray_nan
   \<and> documented_types gray_nan
   \<and> eq gray_nan gray_nan = Inr False"
  by (simp add: init_gray_nan)
     (simp add: gray_nan_def gray_def documented_types_def eq_def getName_def
        getNormalization_def getVMin_def)

text \<open>
  Claim C8, as the source has it. Two objects whose attributes have the documented types
  compare equal exactly when all five attributes agree and neither bound nor any entry of
  the colour table is NaN, whatever else distinguishes the objects; and the comparison is
  symmetric. So without NaN, objects with the same five attributes compare equal and a
  change of any one of the five makes them unequal.
\<close>

theorem eq_structural_up_to_nan:
  assumes "documented_types s1" and "documented_types s2"
  shows "eq s1 s2 = Inr (self_name s1 = self_name s2
                       \<and> self_normalization s1 = self_normalization s2
                       \<and> self_vmin s1 = self_vmin s2
                       \<and> self_vmax s1 = self_vmax s2
                       \<and> self_colors s1 = self_colors s2
                       \<and> nan_free s1)
         \<and> eq s2 s1 = eq s1 s2"
proof -
  have *: "eq a b = Inr (self_name a = self_name b
                       \<and> self_normalization a = self_normalization b
                       \<and> self_vmin a = self_vmin b
                       \<and> self_vmax a = self_vmax b
                       \<and> self_colors a = self_colors b
                       \<and> nan_free a)"
    if "documented_types a" "documented_types b" for a b
    using that
    by (auto simp: eq_def documented_types_def nan_free_def getName_def getNormalization_def
          getVMin_def getVMax_def getColorMapLUT_def py_eq_str_or_None py_eq_float_or_None
          py_eq_is_str array_equal_array_or_None)
  show ?thesis using * [OF assms] * [OF assms(2,1)] by (auto simp: nan_free_def)
qed

theorem eq_structural_up_to_nan_witness:
  "documented_types (gray LINEAR) \<and> documented_types (setName ''gray'' (gray LINEAR))
   \<and> documented_types (setVMin (PNum 0) (gray LINEAR))
   \<and> eq (gray LINEAR) (setName ''gray'' (gray LINEAR)) = Inr True
   \<and> eq (gray LINEAR) (setVMin (PNum 0) (gray LINEAR)) = Inr False"
  using eq_structural_up_to_nan [of "gray LINEAR" "setName ''gray'' (gray LINEAR)"]
    eq_structural_up_to_nan [of "gray LINEAR" "setVMin (PNum 0) (gray LINEAR)"]
  by (simp add: documented_types_def nan_free_def gray_def setName_def setVMin_def emit_def)

text \<open>
  Claim C9. \<^verbatim>\<open>isAutoscale()\<close> is true if and only if at least one of vmin and vmax is
  unset. So the dictionary of an object with exactly one bound unset has \<^verbatim>\<open>autoscale\<close>
  true and a bound that is not \<^verbatim>\<open>None\<close>, and reading it back fails: \<^verbatim>\<open>_toDict\<close>
  followed by \<^verbatim>\<open>_setFromDict\<close> or \<^verbatim>\<open>_fromDict\<close> raises.
\<close>

theorem isAutoscale_toDict_rejected:
  "(isAutoscale self \<longleftrightarrow> self_vmin self = PNone \<or> self_vmax self = PNone)
   \<and> ((self_vmin self = PNone) \<noteq> (self_vmax self = PNone) \<longrightarrow>
        toDict self ''autoscale'' = Some (PBool True)
        \<and> (dict_get (toDict self) ''vmin'' \<noteq> PNone \<or> dict_get (toDict self) ''vmax'' \<noteq> PNone)
        \<and> setFromDict (toDict self) other = Inl ValueError
        \<and> fromDict (toDict self) = Inl ValueError)"
proof (intro conjI impI)
  show "isAutoscale self \<longleftrightarrow> self_vmin self = PNone \<or> self_vmax self = PNone"
    by (simp add: isAutoscale_def)
next
  assume one: "(self_vmin self = PNone) \<noteq> (self_vmax self = PNone)"
  then show a: "toDict self ''autoscale'' = Some (PBool True)"
    by (auto simp: toDict_def isAutoscale_def)
  from one show b:
    "dict_get (toDict self) ''vmin'' \<noteq> PNone \<or> dict_get (toDict self) ''vmax'' \<noteq> PNone"
    by (auto simp: toDict_def dict_get_def)
  from a b have c: "check_autoscale (toDict self) (dict_get (toDict self) ''vmin'')
      (dict_get (toDict self) ''vmax'') = Inl ValueError"
    by (auto simp: check_autoscale_def)
  then show "setFromDict (toDict self) other = Inl ValueError"
    by (simp add: setFromDict_check)
  from c show "fromDict (toDict self) = Inl ValueError"
    by (simp add: setFromDict_check fromDict_setFromDict)
qed

theorem isAutoscale_toDict_rejected_witness:
  "(self_vmin (setVMin (PNum 1) (gray LINEAR)) = PNone)
     \<noteq> (self_vmax (setVMin (PNum 1) (gray LINEAR)) = PNone)
   \<and> isAutoscale (setVMin (PNum 1) (gray LINEAR))
   \<and> toDict (setVMin (PNum 1) (gray LINEAR)) ''autoscale'' = Some (PBool True)
   \<and> fromDict (toDict (setVMin (PNum 1) (gray LINEAR))) = Inl ValueError"
proof -
  let ?c = "setVMin (PNum 1) (gray LINEAR)"
  have one: "(self_vmin ?c = PNone) \<noteq> (self_vmax ?c = PNone)"
    by (simp add: setVMin_def gray_def emit_def)
  with isAutoscale_toDict_rejected [of ?c ?c] show ?thesis
    by blast
qed

text \<open>
  Claim C10. \<^verbatim>\<open>setName(name)\<close> does more than replace the name: on every object the
  colors are \<^verbatim>\<open>None\<close> afterwards, so a custom LUT set before is discarded by a change
  of name. The normalization and the bounds stay as they were.
\<close>

theorem setName_resets_colors:
  "getName (setName name self) = PStr name
   \<and> getColorMapLUT (setName name self) copy = PNone
   \<and> getNormalization (setName name self) = getNormalization self
   \<and> getVMin (setName name self) = getVMin self
   \<and> getVMax (setName name self) = getVMax self"
  by (simp add: getName_def getColorMapLUT_def getNormalization_def getVMin_def getVMax_def
        setName_def emit_def)

end
